theory Spec2Isabelle
  imports Main "HOL-Library.Sublist"
begin

section \<open>The example bot \<open>example_bots/simple_telegram_bot/bot.py\<close>\<close>

text \<open>
  The program registers four command handlers and one handler for plain text with the
  messaging library, and starts the library's polling loop. Each handler answers the
  event it is given with \<open>reply_text\<close>. The embedding below keeps the names of the
  source; a handler is a function from the event to the replies it sends, in order.
\<close>

subsection \<open>Texts\<close>

text \<open>
  A Python \<open>str\<close> is modelled as a \<open>string\<close>, a list of 8-bit characters. The string
  literals of the source that hold characters outside ASCII (the pictographs of the
  replies) are written as their UTF-8 bytes.
\<close>

definition waving_hand :: string where \<comment> \<open>U+1F44B\<close>
  "waving_hand = [CHR 0xF0, CHR 0x9F, CHR 0x91, CHR 0x8B]"

definition robot_face :: string where \<comment> \<open>U+1F916\<close>
  "robot_face = [CHR 0xF0, CHR 0x9F, CHR 0xA4, CHR 0x96]"

definition open_book :: string where \<comment> \<open>U+1F4D6\<close>
  "open_book = [CHR 0xF0, CHR 0x9F, CHR 0x93, CHR 0x96]"

definition information_sign :: string where \<comment> \<open>U+2139 U+FE0F\<close>
  "information_sign = [CHR 0xE2, CHR 0x84, CHR 0xB9, CHR 0xEF, CHR 0xB8, CHR 0x8F]"

definition globe :: string where \<comment> \<open>U+1F310\<close>
  "globe = [CHR 0xF0, CHR 0x9F, CHR 0x8C, CHR 0x90]"

definition laptop :: string where \<comment> \<open>U+1F4BB\<close>
  "laptop = [CHR 0xF0, CHR 0x9F, CHR 0x92, CHR 0xBB]"

definition books :: string where \<comment> \<open>U+1F4DA\<close>
  "books = [CHR 0xF0, CHR 0x9F, CHR 0x93, CHR 0x9A]"

definition arrows :: string where \<comment> \<open>U+1F504\<close>
  "arrows = [CHR 0xF0, CHR 0x9F, CHR 0x94, CHR 0x84]"

definition smiling_face :: string where \<comment> \<open>U+1F60A\<close>
  "smiling_face = [CHR 0xF0, CHR 0x9F, CHR 0x98, CHR 0x8A]"

definition cross_mark :: string where \<comment> \<open>U+274C\<close>
  "cross_mark = [CHR 0xE2, CHR 0x9D, CHR 0x8C]"

definition rocket :: string where \<comment> \<open>U+1F680\<close>
  "rocket = [CHR 0xF0, CHR 0x9F, CHR 0x9A, CHR 0x80]"

definition check_mark :: string where \<comment> \<open>U+2705\<close>
  "check_mark = [CHR 0xE2, CHR 0x9C, CHR 0x85]"

text \<open>
  \<open>str.lower\<close>: the letters \<open>A\<close> to \<open>Z\<close> become \<open>a\<close> to \<open>z\<close>. Every other character
  is left as it is: what Python does to a letter outside ASCII is a table of its
  runtime, and the program only looks for ASCII words in the lowered text. The
  statements about all texts below use of \<open>lower\<close> only that it is a function of the
  text and keeps the empty text; the evaluations at given texts are of ASCII texts.
\<close>

definition lower_char :: "char \<Rightarrow> char" where
  "lower_char c =
     (case map_of (zip ''ABCDEFGHIJKLMNOPQRSTUVWXYZ'' ''abcdefghijklmnopqrstuvwxyz'') c of
        Some l \<Rightarrow> l
      | None \<Rightarrow> c)"

definition lower :: "string \<Rightarrow> string" where
  "lower s = map lower_char s"

text \<open>\<open>needle in hay\<close> on strings: \<open>needle\<close> occurs in \<open>hay\<close> as a contiguous run.\<close>

fun str_contains :: "string \<Rightarrow> string \<Rightarrow> bool" where
  "str_contains [] needle = (needle = [])"
| "str_contains (c # cs) needle = (prefix needle (c # cs) \<or> str_contains cs needle)"

text \<open>\<open>sep.join(xs)\<close>.\<close>

fun join :: "string \<Rightarrow> string list \<Rightarrow> string" where
  "join sep [] = []"
| "join sep [x] = x"
| "join sep (x # y # ys) = x @ sep @ join sep (y # ys)"

subsection \<open>Events and responses\<close>

text \<open>
  Modelled from the spec: the library's \<open>Update\<close> and \<open>Message\<close> classes are not in the
  source. The event carries what the handlers read of them, under the names of the
  spec's data model: \<open>sender_display_name\<close> is \<open>update.effective_user.first_name\<close>,
  \<open>raw_text\<close> is \<open>update.message.text\<close>, \<open>command_args\<close> is \<open>context.args\<close>, and
  \<open>is_command\<close> with \<open>command_name\<close> is the library's reading of a leading command
  token. A response is one call of \<open>update.message.reply_text\<close>; \<open>rich_text\<close> stands for
  \<open>parse_mode='Markdown'\<close>.
\<close>

record InboundEvent =
  sender_id :: nat
  sender_display_name :: string
  raw_text :: string
  is_command :: bool
  command_name :: "string option"
  command_args :: "string list"

datatype format_hint = plain | rich_text

record OutboundResponse =
  target_sender_id :: nat
  body :: string
  format_hint :: format_hint

definition reply_text :: "InboundEvent \<Rightarrow> string \<Rightarrow> format_hint \<Rightarrow> OutboundResponse" where
  "reply_text update text parse_mode =
     \<lparr>target_sender_id = sender_id update, body = text, format_hint = parse_mode\<rparr>"

type_synonym callback = "InboundEvent \<Rightarrow> OutboundResponse list"

subsection \<open>Command handlers\<close>

definition start_text :: "string \<Rightarrow> string" where
  "start_text first_name =
     waving_hand @ '' Hello '' @ first_name @ ''!\<newline>\<newline>'' @
     ''I'm a simple example bot running on TELEBOT HOSTER! '' @ robot_face @ ''\<newline>\<newline>'' @
     ''Try these commands:\<newline>'' @
     ''/help - Show available commands\<newline>'' @
     ''/about - Learn about this bot\<newline>'' @
     ''/echo <message> - Echo your message back\<newline>\<newline>'' @
     ''Or just send me any message and I'll respond!''"

definition start_command :: callback where
  "start_command update =
     (let user = sender_display_name update
      in [reply_text update (start_text user) plain])"

definition help_text :: string where
  "help_text =
     open_book @ '' *Available Commands:*\<newline>\<newline>'' @
     ''/start - Start the bot\<newline>'' @
     ''/help - Show this help message\<newline>'' @
     ''/about - Learn about this bot\<newline>'' @
     ''/echo <text> - Echo your message\<newline>\<newline>'' @
     ''You can also just send me any text message!''"

definition help_command :: callback where
  "help_command update = [reply_text update help_text rich_text]"

definition about_text :: string where
  "about_text =
     information_sign @ '' *About This Bot*\<newline>\<newline>'' @
     ''This is a simple example Telegram bot hosted on TELEBOT HOSTER.\<newline>\<newline>'' @
     globe @ '' Platform: TELEBOT HOSTER\<newline>'' @
     laptop @ '' Language: Python\<newline>'' @
     books @ '' Library: python-telegram-bot\<newline>\<newline>'' @
     ''You can deploy your own bots just like this one!''"

definition about_command :: callback where
  "about_command update = [reply_text update about_text rich_text]"

definition echo_usage :: string where
  "echo_usage = ''Please provide a message to echo!\<newline>\<newline>Example: /echo Hello World''"

definition echo_indicator :: string where
  "echo_indicator = arrows @ '' You said: ''"

definition echo_command :: callback where
  "echo_command update =
     (if command_args update \<noteq> [] then
        (let message = join '' '' (command_args update)
         in [reply_text update (echo_indicator @ message) plain])
      else [reply_text update echo_usage plain])"

subsection \<open>The handler of plain text\<close>

definition greeting_text :: "string \<Rightarrow> string" where
  "greeting_text user_name =
     ''Hello '' @ user_name @ ''! '' @ waving_hand @ '' How can I help you today?''"

definition wellbeing_text :: string where
  "wellbeing_text = ''I'm doing great! Thanks for asking! '' @ smiling_face"

definition farewell_text :: string where
  "farewell_text = ''Goodbye! Come back soon! '' @ waving_hand"

definition default_text :: "string \<Rightarrow> string" where
  "default_text user_message =
     ''You said: '' @ user_message @ ''\<newline>\<newline>'' @
     ''Try using /help to see what I can do!''"

definition handle_message :: callback where
  "handle_message update =
     (let user_message = raw_text update;
          user_name = sender_display_name update
      in if str_contains (lower user_message) ''hello'' \<or> str_contains (lower user_message) ''hi''
         then [reply_text update (greeting_text user_name) plain]
         else if str_contains (lower user_message) ''how are you''
         then [reply_text update wellbeing_text plain]
         else if str_contains (lower user_message) ''bye''
         then [reply_text update farewell_text plain]
         else [reply_text update (default_text user_message) plain])"

subsection \<open>Routing\<close>

text \<open>
  Modelled from the spec: the library's handler classes (\<open>CommandHandler\<close>,
  \<open>MessageHandler\<close>), its filters (\<open>filters.TEXT\<close>, \<open>filters.COMMAND\<close>, \<open>&\<close>, \<open>~\<close>) and
  its \<open>Application\<close> are not in the source, which only builds the table in \<open>main\<close>.
  Following the Router's contract (section 4.1 of the spec): a command handler
  registered under a name accepts the events with \<open>is_command\<close> whose \<open>command_name\<close>
  is exactly that name; \<open>filters.COMMAND\<close> holds of the events with \<open>is_command\<close>;
  \<open>filters.TEXT\<close> holds of every event, an inbound event being a text event with a
  \<open>raw_text\<close>; an event goes to the first registered handler that accepts it, and to
  none when no handler does.
\<close>

datatype filter = TEXT | COMMAND | Filter_and filter filter | Filter_not filter

fun check_filter :: "filter \<Rightarrow> InboundEvent \<Rightarrow> bool" where
  "check_filter TEXT update = True"
| "check_filter COMMAND update = is_command update"
| "check_filter (Filter_and f g) update = (check_filter f update \<and> check_filter g update)"
| "check_filter (Filter_not f) update = (\<not> check_filter f update)"

datatype handler = CommandHandler string callback | MessageHandler filter callback

fun check_update :: "handler \<Rightarrow> InboundEvent \<Rightarrow> bool" where
  "check_update (CommandHandler command cb) update =
     (is_command update \<and> command_name update = Some command)"
| "check_update (MessageHandler f cb) update = check_filter f update"

fun callback_of :: "handler \<Rightarrow> callback" where
  "callback_of (CommandHandler command cb) = cb"
| "callback_of (MessageHandler f cb) = cb"

definition add_handler :: "handler list \<Rightarrow> handler \<Rightarrow> handler list" where
  "add_handler application h = application @ [h]"

text \<open>The handlers that \<open>main\<close> registers, in its order.\<close>

definition application :: "handler list" where
  "application =
     foldl add_handler []
       [CommandHandler ''start'' start_command,
        CommandHandler ''help'' help_command,
        CommandHandler ''about'' about_command,
        CommandHandler ''echo'' echo_command,
        MessageHandler (Filter_and TEXT (Filter_not COMMAND)) handle_message]"

fun commands_of :: "handler list \<Rightarrow> string list" where
  "commands_of [] = []"
| "commands_of (CommandHandler command cb # hs) = command # commands_of hs"
| "commands_of (MessageHandler f cb # hs) = commands_of hs"

definition registered_commands :: "string list" where
  "registered_commands = commands_of application"

definition route :: "InboundEvent \<Rightarrow> callback option" where
  "route update = map_option callback_of (find (\<lambda>h. check_update h update) application)"

text \<open>One dispatch cycle: the replies sent for one event.\<close>

definition process_update :: "InboundEvent \<Rightarrow> OutboundResponse list" where
  "process_update update = (case route update of None \<Rightarrow> [] | Some cb \<Rightarrow> cb update)"

subsection \<open>Start of the process\<close>

text \<open>
  The module reads the token from the environment, stops with \<open>sys.exit(1)\<close> when
  \<open>not BOT_TOKEN\<close> (the variable is unset or empty), and otherwise calls \<open>main\<close>, which
  ends in \<open>application.run_polling\<close>. A run is the list of what the process does, in
  order; the environment is a map from names to values and \<open>os.getenv\<close> a lookup.
\<close>

datatype level = INFO | ERROR

datatype action = Log level string | Sys_exit int | Run_polling "string option"

text \<open>\<open>not v\<close> for a value that is \<open>None\<close> or a string.\<close>

fun not_str :: "string option \<Rightarrow> bool" where
  "not_str None = True"
| "not_str (Some s) = (s = [])"

definition main :: "string option \<Rightarrow> action list" where
  "main BOT_TOKEN =
     [Log INFO (rocket @ '' Starting bot...''),
      Log INFO (check_mark @ '' Bot is running! Press Ctrl+C to stop.''),
      Run_polling BOT_TOKEN]"

definition script :: "(string \<rightharpoonup> string) \<Rightarrow> action list" where
  "script environ =
     (let BOT_TOKEN = environ ''TELEGRAM_BOT_TOKEN''
      in if not_str BOT_TOKEN
         then [Log ERROR (cross_mark @ '' TELEGRAM_BOT_TOKEN environment variable is not set!''),
               Log ERROR ''Please add TELEGRAM_BOT_TOKEN in the bot settings.'',
               Sys_exit 1]
         else main BOT_TOKEN)"

section \<open>Texts: basic facts\<close>

lemma str_contains_sublist: "str_contains hay needle = sublist needle hay"
  by (induction hay) (simp_all add: sublist_Cons_right)

lemma str_contains_appendI1: "str_contains a needle \<Longrightarrow> str_contains (a @ b) needle"
  by (simp add: str_contains_sublist sublist_append)

lemma str_contains_appendI2: "str_contains b needle \<Longrightarrow> str_contains (a @ b) needle"
  by (simp add: str_contains_sublist sublist_append)

lemma str_contains_self: "str_contains (a @ needle @ b) needle"
  by (simp add: str_contains_sublist)

lemma lower_simps [simp]: "lower [] = []" "lower (c # cs) = lower_char c # lower cs"
  by (simp_all add: lower_def)

lemma texts_distinct:
  "greeting_text n \<noteq> wellbeing_text" "greeting_text n \<noteq> farewell_text"
  "greeting_text n \<noteq> default_text t" "wellbeing_text \<noteq> farewell_text"
  "wellbeing_text \<noteq> default_text t" "farewell_text \<noteq> default_text t"
  by (simp_all add: greeting_text_def wellbeing_text_def farewell_text_def default_text_def)

lemma reply_text_eq [simp]:
  "reply_text u a f = reply_text u b g \<longleftrightarrow> a = b \<and> f = g"
  by (auto simp: reply_text_def)

section \<open>The echo command\<close>

lemma join_contains_arg: "a \<in> set xs \<Longrightarrow> str_contains (join sep xs) a"
proof (induction sep xs rule: join.induct)
  case (1 sep)
  then show ?case by simp
next
  case (2 sep x)
  then show ?case by (simp add: str_contains_sublist)
next
  case (3 sep x y ys)
  show ?case
  proof (cases "a = x")
    case True
    have "str_contains (x @ sep @ join sep (y # ys)) x"
      by (rule str_contains_appendI1) (simp add: str_contains_sublist)
    with True show ?thesis by simp
  next
    case False
    with 3 have "str_contains (join sep (y # ys)) a" by simp
    then have "str_contains (x @ sep @ join sep (y # ys)) a"
      by (intro str_contains_appendI2)
    then show ?thesis by simp
  qed
qed

text \<open>
  C2. With arguments, \<open>echo\<close> sends exactly one reply, in plain format, whose body is the
  pictograph U+1F504 and \<open>You said:\<close> followed by the arguments joined with single
  spaces; the joined text, and so every argument, stands in the body. With no argument
  it sends exactly one reply whose body is the usage hint
  \<open>Please provide a message to echo!\<close> with the example \<open>/echo Hello World\<close>: it asks for
  a message, and it is not an echo, having no \<open>You said:\<close> in it.
\<close>

theorem echo_command_body:
  "(command_args update \<noteq> [] \<longrightarrow>
      echo_command update =
        [\<lparr>target_sender_id = sender_id update,
          body = [CHR 0xF0, CHR 0x9F, CHR 0x94, CHR 0x84] @ '' You said: ''
                   @ join '' '' (command_args update),
          format_hint = plain\<rparr>]
      \<and> (\<forall>r \<in> set (echo_command update).
            str_contains (body r) (join '' '' (command_args update))
            \<and> (\<forall>a \<in> set (command_args update). str_contains (body r) a)))
   \<and> (command_args update = [] \<longrightarrow>
      echo_command update =
        [\<lparr>target_sender_id = sender_id update,
          body = ''Please provide a message to echo!\<newline>\<newline>Example: /echo Hello World'',
          format_hint = plain\<rparr>]
      \<and> (\<forall>r \<in> set (echo_command update).
            str_contains (body r) ''Please provide a message to echo''
            \<and> \<not> str_contains (body r) ''You said:''
            \<and> body r \<noteq> [CHR 0xF0, CHR 0x9F, CHR 0x94, CHR 0x84] @ '' You said: '' @ join '' '' []))"
proof (cases "command_args update = []")
  case True
  have e: "echo_command update = [reply_text update echo_usage plain]"
    using True by (simp add: echo_command_def)
  have u: "echo_usage = ''Please provide a message to echo!\<newline>\<newline>Example: /echo Hello World''"
    by (simp add: echo_usage_def)
  have p: "str_contains echo_usage ''Please provide a message to echo''"
    "\<not> str_contains echo_usage ''You said:''"
    by (simp_all add: echo_usage_def)
  have n: "echo_usage \<noteq> [CHR 0xF0, CHR 0x9F, CHR 0x94, CHR 0x84] @ '' You said: '' @ join '' '' []"
    by (simp add: echo_usage_def)
  from True p n show ?thesis
    unfolding e by (simp add: reply_text_def) (simp add: u)
next
  case False
  let ?m = "join '' '' (command_args update)"
  have e: "echo_command update = [reply_text update (echo_indicator @ ?m) plain]"
    using False by (simp add: echo_command_def Let_def)
  have j: "str_contains (echo_indicator @ ?m) ?m"
    by (rule str_contains_appendI2) (simp add: str_contains_sublist)
  have a: "str_contains (echo_indicator @ ?m) a" if "a \<in> set (command_args update)" for a
    by (rule str_contains_appendI2) (rule join_contains_arg [OF that])
  from False j a show ?thesis
    unfolding e by (simp add: reply_text_def) (simp add: echo_indicator_def arrows_def)
qed

theorem echo_command_body_witness:
  "echo_command \<lparr>sender_id = 7, sender_display_name = ''Ann'',
      raw_text = ''/echo Hello World'', is_command = True, command_name = Some ''echo'',
      command_args = [''Hello'', ''World'']\<rparr>
     = [\<lparr>target_sender_id = 7,
         body = [CHR 0xF0, CHR 0x9F, CHR 0x94, CHR 0x84] @ '' You said: Hello World'',
         format_hint = plain\<rparr>]
   \<and> str_contains (body (hd (echo_command \<lparr>sender_id = 7, sender_display_name = ''Ann'',
      raw_text = ''/echo Hello World'', is_command = True, command_name = Some ''echo'',
      command_args = [''Hello'', ''World'']\<rparr>))) ''Hello World''
   \<and> echo_command \<lparr>sender_id = 7, sender_display_name = ''Ann'',
      raw_text = ''/echo'', is_command = True, command_name = Some ''echo'',
      command_args = []\<rparr>
     = [\<lparr>target_sender_id = 7,
         body = ''Please provide a message to echo!\<newline>\<newline>Example: /echo Hello World'',
         format_hint = plain\<rparr>]"
  using echo_command_body [of "\<lparr>sender_id = 7, sender_display_name = ''Ann'',
      raw_text = ''/echo Hello World'', is_command = True, command_name = Some ''echo'',
      command_args = [''Hello'', ''World'']\<rparr>"]
    echo_command_body [of "\<lparr>sender_id = 7, sender_display_name = ''Ann'',
      raw_text = ''/echo'', is_command = True, command_name = Some ''echo'',
      command_args = []\<rparr>"]
  by simp

section \<open>The handler of plain text\<close>

text \<open>
  C3. A text whose lowering holds both \<open>hello\<close> and \<open>bye\<close> is answered by the first
  branch, with the greeting and not with the farewell.
\<close>

theorem first_rule_wins:
  assumes "str_contains (lower (raw_text update)) ''hello''"
      and "str_contains (lower (raw_text update)) ''bye''"
  shows "handle_message update =
           [reply_text update (greeting_text (sender_display_name update)) plain]
         \<and> handle_message update \<noteq> [reply_text update farewell_text plain]"
  using assms by (simp add: handle_message_def Let_def texts_distinct)

theorem first_rule_wins_witness:
  "str_contains (lower ''hello, gotta go bye'') ''hello''
   \<and> str_contains (lower ''hello, gotta go bye'') ''bye''
   \<and> handle_message \<lparr>sender_id = 7, sender_display_name = ''Ann'',
      raw_text = ''hello, gotta go bye'', is_command = False, command_name = None,
      command_args = []\<rparr> = [\<lparr>target_sender_id = 7,
        body = ''Hello Ann! '' @ waving_hand @ '' How can I help you today?'',
        format_hint = plain\<rparr>]"
proof -
  have h: "str_contains (lower ''hello, gotta go bye'') ''hello''"
    by (simp add: lower_char_def)
  have b: "str_contains (lower ''hello, gotta go bye'') ''bye''"
    by (simp add: lower_char_def)
  show ?thesis
    using h b first_rule_wins [of "\<lparr>sender_id = 7, sender_display_name = ''Ann'',
      raw_text = ''hello, gotta go bye'', is_command = False, command_name = None,
      command_args = []\<rparr>"]
    by (simp add: reply_text_def greeting_text_def)
qed

lemma handle_message_cases:
  fixes update :: InboundEvent
  defines "t \<equiv> lower (raw_text update)"
  shows "(handle_message update =
            [reply_text update (greeting_text (sender_display_name update)) plain])
         = (str_contains t ''hello'' \<or> str_contains t ''hi'')"
    and "(handle_message update = [reply_text update wellbeing_text plain])
         = (\<not> (str_contains t ''hello'' \<or> str_contains t ''hi'')
            \<and> str_contains t ''how are you'')"
    and "(handle_message update = [reply_text update farewell_text plain])
         = (\<not> (str_contains t ''hello'' \<or> str_contains t ''hi'')
            \<and> \<not> str_contains t ''how are you'' \<and> str_contains t ''bye'')"
    and "(handle_message update = [reply_text update (default_text (raw_text update)) plain])
         = (\<not> (str_contains t ''hello'' \<or> str_contains t ''hi'')
            \<and> \<not> str_contains t ''how are you'' \<and> \<not> str_contains t ''bye'')"
  unfolding t_def
  by (simp_all add: handle_message_def Let_def texts_distinct texts_distinct [symmetric])

lemma handle_message_length: "length (handle_message update) = 1"
  by (simp add: handle_message_def Let_def)

text \<open>
  C5. On the empty text no word is found, so the last branch answers, echoing the
  empty text with the hint; and an event that is not a command goes to
  \<open>handle_message\<close>, also when its text is empty.
\<close>

theorem empty_text_default:
  assumes "raw_text update = []"
  shows "handle_message update = [reply_text update (default_text []) plain]
         \<and> default_text [] = ''You said: \<newline>\<newline>Try using /help to see what I can do!''
         \<and> (\<not> is_command update \<longrightarrow>
              route update = Some handle_message
              \<and> process_update update = [reply_text update (default_text []) plain])"
proof -
  have d: "handle_message update = [reply_text update (default_text []) plain]"
    using assms by (simp add: handle_message_def Let_def)
  have r: "route update = Some handle_message" if "\<not> is_command update"
    using that by (simp add: route_def application_def add_handler_def)
  show ?thesis
    using d r by (simp add: process_update_def default_text_def)
qed

theorem empty_text_default_witness:
  "handle_message \<lparr>sender_id = 7, sender_display_name = ''Ann'', raw_text = [],
      is_command = False, command_name = None, command_args = []\<rparr>
     = [\<lparr>target_sender_id = 7,
         body = ''You said: \<newline>\<newline>Try using /help to see what I can do!'',
         format_hint = plain\<rparr>]
   \<and> route \<lparr>sender_id = 7, sender_display_name = ''Ann'', raw_text = [],
      is_command = False, command_name = None, command_args = []\<rparr> = Some handle_message
   \<and> process_update \<lparr>sender_id = 7, sender_display_name = ''Ann'', raw_text = [],
      is_command = False, command_name = None, command_args = []\<rparr>
     = [\<lparr>target_sender_id = 7,
         body = ''You said: \<newline>\<newline>Try using /help to see what I can do!'',
         format_hint = plain\<rparr>]"
  using empty_text_default [of "\<lparr>sender_id = 7, sender_display_name = ''Ann'', raw_text = [],
      is_command = False, command_name = None, command_args = []\<rparr>"]
  by (simp add: reply_text_def)

text \<open>
  C9. For every text exactly one reply is sent, and it is the reply of exactly one
  branch: each of the four replies is sent under the condition of its branch and under
  no other, the last one whenever none of the three words is found.
\<close>

theorem exactly_one_reply:
  "length (handle_message update) = 1
   \<and> (let t = lower (raw_text update); n = sender_display_name update
      in ((handle_message update = [reply_text update (greeting_text n) plain])
           = (str_contains t ''hello'' \<or> str_contains t ''hi''))
       \<and> ((handle_message update = [reply_text update wellbeing_text plain])
           = (\<not> (str_contains t ''hello'' \<or> str_contains t ''hi'')
              \<and> str_contains t ''how are you''))
       \<and> ((handle_message update = [reply_text update farewell_text plain])
           = (\<not> (str_contains t ''hello'' \<or> str_contains t ''hi'')
              \<and> \<not> str_contains t ''how are you'' \<and> str_contains t ''bye''))
       \<and> ((handle_message update = [reply_text update (default_text (raw_text update)) plain])
           = (\<not> (str_contains t ''hello'' \<or> str_contains t ''hi'')
              \<and> \<not> str_contains t ''how are you'' \<and> \<not> str_contains t ''bye'')))"
  unfolding Let_def
  using handle_message_length [of update] handle_message_cases [of update]
  by simp

theorem exactly_one_reply_witness:
  "length (handle_message \<lparr>sender_id = 7, sender_display_name = ''Ann'',
      raw_text = ''Good bye'', is_command = False, command_name = None,
      command_args = []\<rparr>) = 1
   \<and> handle_message \<lparr>sender_id = 7, sender_display_name = ''Ann'',
      raw_text = ''Good bye'', is_command = False, command_name = None,
      command_args = []\<rparr>
     = [\<lparr>target_sender_id = 7, body = farewell_text, format_hint = plain\<rparr>]"
proof -
  have "\<not> (str_contains (lower ''Good bye'') ''hello'' \<or> str_contains (lower ''Good bye'') ''hi'')
        \<and> \<not> str_contains (lower ''Good bye'') ''how are you''
        \<and> str_contains (lower ''Good bye'') ''bye''"
    by (simp add: lower_char_def)
  then show ?thesis
    using exactly_one_reply [of "\<lparr>sender_id = 7, sender_display_name = ''Ann'',
      raw_text = ''Good bye'', is_command = False, command_name = None,
      command_args = []\<rparr>"]
    by (simp add: Let_def reply_text_def)
qed

text \<open>
  C10. The bodies and formats of the replies to a text are determined by the text and
  the sender's display name: two events that agree on both get the same ones, whatever
  their other fields are.
\<close>

theorem reply_determined_by_text_and_name:
  assumes "raw_text u = raw_text v"
      and "sender_display_name u = sender_display_name v"
  shows "map body (handle_message u) = map body (handle_message v)
         \<and> map format_hint (handle_message u) = map format_hint (handle_message v)"
  using assms by (simp add: handle_message_def Let_def reply_text_def)

theorem reply_determined_by_text_and_name_witness:
  "map body (handle_message \<lparr>sender_id = 7, sender_display_name = ''Ann'',
      raw_text = ''how are you?'', is_command = False, command_name = None,
      command_args = []\<rparr>) = [wellbeing_text]
   \<and> map body (handle_message \<lparr>sender_id = 8, sender_display_name = ''Ann'',
      raw_text = ''how are you?'', is_command = True, command_name = Some ''x'',
      command_args = [''y'']\<rparr>) = [wellbeing_text]"
proof -
  have "map body (handle_message \<lparr>sender_id = 7, sender_display_name = ''Ann'',
      raw_text = ''how are you?'', is_command = False, command_name = None,
      command_args = []\<rparr>) = [wellbeing_text]"
    by (simp add: handle_message_def Let_def reply_text_def lower_char_def)
  then show ?thesis
    using reply_determined_by_text_and_name [of "\<lparr>sender_id = 7, sender_display_name = ''Ann'',
      raw_text = ''how are you?'', is_command = False, command_name = None,
      command_args = []\<rparr>" "\<lparr>sender_id = 8, sender_display_name = ''Ann'',
      raw_text = ''how are you?'', is_command = True, command_name = Some ''x'',
      command_args = [''y'']\<rparr>"]
    by simp
qed

text \<open>
  C6. The words are looked for in the lowered text, so the case of the text does not
  count: \<open>Hi there!\<close> is greeted, and two texts with the same lowering are answered by
  the same branch. The last branch echoes the text as it was sent, not its lowering.
\<close>

theorem matching_ignores_case:
  "handle_message (update\<lparr>raw_text := ''Hi there!''\<rparr>)
     = [reply_text update (greeting_text (sender_display_name update)) plain]
   \<and> handle_message (update\<lparr>raw_text := ''Hi there!''\<rparr>)
     \<noteq> [reply_text update (default_text ''Hi there!'') plain]
   \<and> (lower (raw_text u) = lower (raw_text v) \<longrightarrow>
        ((handle_message u = [reply_text u (greeting_text (sender_display_name u)) plain])
          = (handle_message v = [reply_text v (greeting_text (sender_display_name v)) plain]))
        \<and> ((handle_message u = [reply_text u wellbeing_text plain])
          = (handle_message v = [reply_text v wellbeing_text plain]))
        \<and> ((handle_message u = [reply_text u farewell_text plain])
          = (handle_message v = [reply_text v farewell_text plain]))
        \<and> ((handle_message u = [reply_text u (default_text (raw_text u)) plain])
          = (handle_message v = [reply_text v (default_text (raw_text v)) plain])))
   \<and> (handle_message u = [reply_text u (default_text (raw_text u)) plain] \<longrightarrow>
        map body (handle_message u)
          = [''You said: '' @ raw_text u @ ''\<newline>\<newline>Try using /help to see what I can do!'']
        \<and> (\<forall>r \<in> set (handle_message u). str_contains (body r) (raw_text u)))"
proof -
  have hi: "str_contains (lower ''Hi there!'') ''hi''"
    by (simp add: lower_char_def)
  have c1: "handle_message (update\<lparr>raw_text := ''Hi there!''\<rparr>)
             = [reply_text update (greeting_text (sender_display_name update)) plain]"
    using hi by (simp add: handle_message_def Let_def reply_text_def)
  have c2: "handle_message (update\<lparr>raw_text := ''Hi there!''\<rparr>)
             \<noteq> [reply_text update (default_text ''Hi there!'') plain]"
    unfolding c1 by (simp add: texts_distinct)
  have c3: "((handle_message u = [reply_text u (greeting_text (sender_display_name u)) plain])
          = (handle_message v = [reply_text v (greeting_text (sender_display_name v)) plain]))
        \<and> ((handle_message u = [reply_text u wellbeing_text plain])
          = (handle_message v = [reply_text v wellbeing_text plain]))
        \<and> ((handle_message u = [reply_text u farewell_text plain])
          = (handle_message v = [reply_text v farewell_text plain]))
        \<and> ((handle_message u = [reply_text u (default_text (raw_text u)) plain])
          = (handle_message v = [reply_text v (default_text (raw_text v)) plain]))"
    if "lower (raw_text u) = lower (raw_text v)"
    unfolding handle_message_cases [of u] handle_message_cases [of v] that by simp
  have c4: "map body (handle_message u)
          = [''You said: '' @ raw_text u @ ''\<newline>\<newline>Try using /help to see what I can do!'']
        \<and> (\<forall>r \<in> set (handle_message u). str_contains (body r) (raw_text u))"
    if d: "handle_message u = [reply_text u (default_text (raw_text u)) plain]"
  proof -
    have "str_contains (default_text (raw_text u)) (raw_text u)"
      unfolding default_text_def by (rule str_contains_self)
    then show ?thesis
      unfolding d by (simp add: reply_text_def) (simp add: default_text_def)
  qed
  from c1 c2 c3 c4 show ?thesis
    by blast
qed

theorem matching_ignores_case_witness:
  "lower ''GOOD Morning'' = lower ''good morning''
   \<and> map body (handle_message \<lparr>sender_id = 7, sender_display_name = ''Ann'',
        raw_text = ''Hi there!'', is_command = False, command_name = None,
        command_args = []\<rparr>)
      = [''Hello Ann! '' @ waving_hand @ '' How can I help you today?'']
   \<and> map body (handle_message \<lparr>sender_id = 7, sender_display_name = ''Ann'',
        raw_text = ''GOOD Morning'', is_command = False, command_name = None,
        command_args = []\<rparr>)
      = [''You said: GOOD Morning\<newline>\<newline>Try using /help to see what I can do!'']
   \<and> map body (handle_message \<lparr>sender_id = 7, sender_display_name = ''Ann'',
        raw_text = ''good morning'', is_command = False, command_name = None,
        command_args = []\<rparr>)
      = [''You said: good morning\<newline>\<newline>Try using /help to see what I can do!'']"
proof -
  let ?a = "\<lparr>sender_id = 7, sender_display_name = ''Ann'',
        raw_text = ''GOOD Morning'', is_command = False, command_name = None,
        command_args = []\<rparr>"
  let ?b = "\<lparr>sender_id = 7, sender_display_name = ''Ann'',
        raw_text = ''good morning'', is_command = False, command_name = None,
        command_args = []\<rparr>"
  have l: "lower ''GOOD Morning'' = lower ''good morning''"
    by (simp add: lower_char_def)
  have b: "handle_message ?b = [reply_text ?b (default_text (raw_text ?b)) plain]"
    by (simp add: handle_message_def Let_def lower_char_def)
  show ?thesis
    using l b matching_ignores_case [of ?a ?a ?b] matching_ignores_case [of ?a ?b ?b]
    by (simp add: reply_text_def greeting_text_def default_text_def)
qed

section \<open>Routing\<close>

lemma registered_commands_eq:
  "registered_commands = [''start'', ''help'', ''about'', ''echo'']"
  by (simp add: registered_commands_def application_def add_handler_def)

text \<open>
  C7. An event that is a command under a name that is not registered is accepted by no
  handler: no callback is selected, and the dispatch cycle ends having sent nothing.
\<close>

theorem unregistered_command_dropped:
  assumes "is_command update"
      and "command_name update \<notin> Some ` set registered_commands"
  shows "route update = None \<and> process_update update = []"
proof -
  have "\<not> check_update h update" if "h \<in> set application" for h
    using that assms
    by (auto simp: application_def add_handler_def registered_commands_eq)
  then have "find (\<lambda>h. check_update h update) application = None"
    by (simp add: find_None_iff)
  then show ?thesis
    by (simp add: route_def process_update_def)
qed

theorem unregistered_command_dropped_witness:
  "Some ''settings'' \<notin> Some ` set registered_commands
   \<and> route \<lparr>sender_id = 7, sender_display_name = ''Ann'', raw_text = ''/settings now'',
        is_command = True, command_name = Some ''settings'', command_args = [''now'']\<rparr> = None
   \<and> process_update \<lparr>sender_id = 7, sender_display_name = ''Ann'',
        raw_text = ''/settings now'', is_command = True, command_name = Some ''settings'',
        command_args = [''now'']\<rparr> = []"
proof -
  have n: "Some ''settings'' \<notin> Some ` set registered_commands"
    by (simp add: registered_commands_eq)
  show ?thesis
    using n unregistered_command_dropped [of "\<lparr>sender_id = 7, sender_display_name = ''Ann'',
        raw_text = ''/settings now'', is_command = True, command_name = Some ''settings'',
        command_args = [''now'']\<rparr>"]
    by simp
qed

section \<open>Start of the process\<close>

text \<open>
  C8. When the token is not in the environment, the run is two error lines and
  \<open>sys.exit(1)\<close>, a status other than zero, and the polling loop is never started. A run
  that starts the polling loop has found a token, and a non-empty one, in the
  environment.
\<close>

theorem missing_token_exits:
  "(environ ''TELEGRAM_BOT_TOKEN'' = None \<longrightarrow>
      (\<exists>m1 m2 code. script environ = [Log ERROR m1, Log ERROR m2, Sys_exit code]
         \<and> code = 1 \<and> code \<noteq> 0)
      \<and> (\<forall>token. Run_polling token \<notin> set (script environ)))
   \<and> (Run_polling token \<in> set (script environ) \<longrightarrow>
      (\<exists>t. token = Some t \<and> t \<noteq> [] \<and> environ ''TELEGRAM_BOT_TOKEN'' = Some t))"
proof (cases "environ ''TELEGRAM_BOT_TOKEN''")
  case None
  then show ?thesis
    by (simp add: script_def)
next
  case (Some t)
  then show ?thesis
    by (auto simp: script_def main_def)
qed

theorem missing_token_exits_witness:
  "script Map.empty =
     [Log ERROR (cross_mark @ '' TELEGRAM_BOT_TOKEN environment variable is not set!''),
      Log ERROR ''Please add TELEGRAM_BOT_TOKEN in the bot settings.'',
      Sys_exit 1]
   \<and> Run_polling (Some ''123:abc'') \<notin> set (script Map.empty)
   \<and> Run_polling (Some ''123:abc'') \<in> set (script [''TELEGRAM_BOT_TOKEN'' \<mapsto> ''123:abc''])"
proof -
  have r: "Run_polling (Some ''123:abc'')
             \<in> set (script [''TELEGRAM_BOT_TOKEN'' \<mapsto> ''123:abc''])"
    by (simp add: script_def main_def)
  show ?thesis
    using r missing_token_exits [of Map.empty "Some ''123:abc''"]
      missing_token_exits [of "[''TELEGRAM_BOT_TOKEN'' \<mapsto> ''123:abc'']" "Some ''123:abc''"]
    by (simp add: script_def)
qed

section \<open>The start and help commands\<close>

lemma str_contains_between:
  assumes A: "A \<noteq> []" "last A \<notin> set needle" "\<not> str_contains A needle"
      and B: "B \<noteq> []" "hd B \<notin> set needle" "\<not> str_contains B needle"
  shows "str_contains (A @ n @ B) needle = str_contains n needle"
proof
  assume "str_contains n needle"
  then show "str_contains (A @ n @ B) needle"
    by (simp add: str_contains_appendI1 str_contains_appendI2)
next
  assume "str_contains (A @ n @ B) needle"
  then have "sublist needle (A @ (n @ B))"
    by (simp add: str_contains_sublist)
  then consider "sublist needle A" | "sublist needle (n @ B)"
    | xs1 xs2 where "needle = xs1 @ xs2" "suffix xs1 A" "prefix xs2 (n @ B)"
    unfolding sublist_append by blast
  then have "sublist needle (n @ B)"
  proof cases
    case 1
    with A(3) show ?thesis
      by (simp add: str_contains_sublist)
  next
    case 2
    then show ?thesis .
  next
    case 3
    show ?thesis
    proof (cases "xs1 = []")
      case True
      with 3 show ?thesis
        by (simp add: prefix_imp_sublist)
    next
      case False
      from 3(2) obtain zs where "A = zs @ xs1"
        by (auto simp: suffix_def)
      with False have "last A = last xs1"
        by simp
      with False 3(1) A(2) show ?thesis
        by simp
    qed
  qed
  then consider "sublist needle n" | "sublist needle B"
    | xs1 xs2 where "needle = xs1 @ xs2" "suffix xs1 n" "prefix xs2 B"
    unfolding sublist_append by blast
  then have "sublist needle n"
  proof cases
    case 1
    then show ?thesis .
  next
    case 2
    with B(3) show ?thesis
      by (simp add: str_contains_sublist)
  next
    case 3
    show ?thesis
    proof (cases xs2)
      case Nil
      with 3 show ?thesis
        by (simp add: suffix_imp_sublist)
    next
      case (Cons x xs)
      from 3(3) obtain zs where "B = xs2 @ zs"
        by (auto simp: prefix_def)
      with Cons have "hd B = x"
        by simp
      with Cons 3(1) B(2) show ?thesis
        by simp
    qed
  qed
  then show "str_contains n needle"
    by (simp add: str_contains_sublist)
qed

lemma start_text_start:
  "str_contains (start_text n) ''start'' = str_contains n ''start''"
proof -
  let ?A = "waving_hand @ '' Hello ''"
  let ?B = "''!\<newline>\<newline>'' @
     ''I'm a simple example bot running on TELEBOT HOSTER! '' @ robot_face @ ''\<newline>\<newline>'' @
     ''Try these commands:\<newline>'' @
     ''/help - Show available commands\<newline>'' @
     ''/about - Learn about this bot\<newline>'' @
     ''/echo <message> - Echo your message back\<newline>\<newline>'' @
     ''Or just send me any message and I'll respond!''"
  have "str_contains (?A @ n @ ?B) ''start'' = str_contains n ''start''"
  proof (rule str_contains_between)
    show "\<not> str_contains ?A ''start''"
      by (simp add: waving_hand_def)
    show "\<not> str_contains ?B ''start''"
      by (simp add: robot_face_def)
  qed (simp_all add: waving_hand_def)
  then show ?thesis
    by (simp add: start_text_def)
qed

lemma help_text_mentions:
  "str_contains help_text ''start''" "str_contains help_text ''help''"
  "str_contains help_text ''about''" "str_contains help_text ''echo''"
  by (simp_all add: help_text_def open_book_def)

lemma start_text_mentions:
  "str_contains (start_text n) ''help''" "str_contains (start_text n) ''about''"
  "str_contains (start_text n) ''echo''"
proof -
  let ?A = "waving_hand @ '' Hello '' @ n"
  let ?B = "''!\<newline>\<newline>'' @
     ''I'm a simple example bot running on TELEBOT HOSTER! '' @ robot_face @ ''\<newline>\<newline>'' @
     ''Try these commands:\<newline>'' @
     ''/help - Show available commands\<newline>'' @
     ''/about - Learn about this bot\<newline>'' @
     ''/echo <message> - Echo your message back\<newline>\<newline>'' @
     ''Or just send me any message and I'll respond!''"
  have s: "start_text n = ?A @ ?B"
    by (simp add: start_text_def)
  have b: "str_contains ?B ''help''" "str_contains ?B ''about''" "str_contains ?B ''echo''"
    by (simp_all add: robot_face_def)
  from b(1) show "str_contains (start_text n) ''help''"
    unfolding s by (rule str_contains_appendI2)
  from b(2) show "str_contains (start_text n) ''about''"
    unfolding s by (rule str_contains_appendI2)
  from b(3) show "str_contains (start_text n) ''echo''"
    unfolding s by (rule str_contains_appendI2)
qed

text \<open>
  C1, as the claim states it, fails: \<open>start\<close> is a registered command, and the reply of
  the \<open>start\<close> handler to a sender called \<open>Ann\<close> does not hold the word \<open>start\<close>.
\<close>

theorem start_reply_omits_start:
  "''start'' \<in> set registered_commands
   \<and> map body (start_command \<lparr>sender_id = 7, sender_display_name = ''Ann'',
        raw_text = ''/start'', is_command = True, command_name = Some ''start'',
        command_args = []\<rparr>) = [start_text ''Ann'']
   \<and> \<not> str_contains (start_text ''Ann'') ''start''"
  by (simp add: registered_commands_eq start_command_def reply_text_def start_text_start)

lemma help_text_lists:
  "str_contains help_text ''/start''" "str_contains help_text ''/help''"
  "str_contains help_text ''/about''" "str_contains help_text ''/echo''"
  by (simp_all add: help_text_def open_book_def)

lemma start_text_lists:
  "str_contains (start_text n) ''/help''" "str_contains (start_text n) ''/about''"
  "str_contains (start_text n) ''/echo''"
proof -
  let ?A = "waving_hand @ '' Hello '' @ n"
  let ?B = "''!\<newline>\<newline>'' @
     ''I'm a simple example bot running on TELEBOT HOSTER! '' @ robot_face @ ''\<newline>\<newline>'' @
     ''Try these commands:\<newline>'' @
     ''/help - Show available commands\<newline>'' @
     ''/about - Learn about this bot\<newline>'' @
     ''/echo <message> - Echo your message back\<newline>\<newline>'' @
     ''Or just send me any message and I'll respond!''"
  have s: "start_text n = ?A @ ?B"
    by (simp add: start_text_def)
  have b: "str_contains ?B ''/help''" "str_contains ?B ''/about''" "str_contains ?B ''/echo''"
    by (simp_all add: robot_face_def)
  from b(1) show "str_contains (start_text n) ''/help''"
    unfolding s by (rule str_contains_appendI2)
  from b(2) show "str_contains (start_text n) ''/about''"
    unfolding s by (rule str_contains_appendI2)
  from b(3) show "str_contains (start_text n) ''/echo''"
    unfolding s by (rule str_contains_appendI2)
qed

text \<open>
  C1, amended. The registered commands are \<open>start\<close>, \<open>help\<close>, \<open>about\<close> and \<open>echo\<close>. The
  \<open>help\<close> handler sends exactly one reply, in rich text, and its body names every
  registered command, each one also as a command token with its slash. The \<open>start\<close>
  handler sends exactly one reply, in plain format, and its body names every registered
  command but \<open>start\<close>, each one also with its slash; the word \<open>start\<close> stands in that
  body exactly when it stands in the sender's display name.
\<close>

theorem start_help_mention_commands:
  "registered_commands = [''start'', ''help'', ''about'', ''echo'']
   \<and> (\<exists>r. help_command update = [r] \<and> format_hint r = rich_text
          \<and> (\<forall>name \<in> set registered_commands.
                str_contains (body r) name \<and> str_contains (body r) (CHR ''/'' # name)))
   \<and> (\<exists>r. start_command update = [r] \<and> format_hint r = plain
          \<and> (\<forall>name \<in> set registered_commands.
                name \<noteq> ''start'' \<longrightarrow>
                  str_contains (body r) name \<and> str_contains (body r) (CHR ''/'' # name))
          \<and> str_contains (body r) ''start''
              = str_contains (sender_display_name update) ''start'')"
proof -
  have h: "\<forall>name \<in> set registered_commands.
             str_contains help_text name \<and> str_contains help_text (CHR ''/'' # name)"
    by (simp add: registered_commands_eq help_text_mentions help_text_lists)
  have s: "\<forall>name \<in> set registered_commands. name \<noteq> ''start'' \<longrightarrow>
             str_contains (start_text n) name \<and> str_contains (start_text n) (CHR ''/'' # name)"
    for n
    by (simp add: registered_commands_eq start_text_mentions start_text_lists)
  have hc: "help_command update = [reply_text update help_text rich_text]"
    by (simp add: help_command_def)
  have sc: "start_command update
              = [reply_text update (start_text (sender_display_name update)) plain]"
    by (simp add: start_command_def)
  have 1: "\<exists>r. help_command update = [r] \<and> format_hint r = rich_text
          \<and> (\<forall>name \<in> set registered_commands.
                str_contains (body r) name \<and> str_contains (body r) (CHR ''/'' # name))"
    unfolding hc using h by (simp add: reply_text_def)
  have 2: "\<exists>r. start_command update = [r] \<and> format_hint r = plain
          \<and> (\<forall>name \<in> set registered_commands.
                name \<noteq> ''start'' \<longrightarrow>
                  str_contains (body r) name \<and> str_contains (body r) (CHR ''/'' # name))
          \<and> str_contains (body r) ''start''
              = str_contains (sender_display_name update) ''start''"
    unfolding sc using s [of "sender_display_name update"]
    by (simp add: reply_text_def start_text_start)
  from registered_commands_eq 1 2 show ?thesis
    by blast
qed

theorem start_help_mention_commands_witness:
  "help_command \<lparr>sender_id = 7, sender_display_name = ''Ann'',
        raw_text = ''/help'', is_command = True, command_name = Some ''help'',
        command_args = []\<rparr>
     = [\<lparr>target_sender_id = 7,
         body = [CHR 0xF0, CHR 0x9F, CHR 0x93, CHR 0x96] @
           '' *Available Commands:*\<newline>\<newline>/start - Start the bot\<newline>/help - Show this help message\<newline>/about - Learn about this bot\<newline>/echo <text> - Echo your message\<newline>\<newline>You can also just send me any text message!'',
         format_hint = rich_text\<rparr>]
   \<and> list_all (\<lambda>name. str_contains (body (hd (help_command \<lparr>sender_id = 7,
        sender_display_name = ''Ann'', raw_text = ''/help'', is_command = True,
        command_name = Some ''help'', command_args = []\<rparr>))) name)
        [''start'', ''help'', ''about'', ''echo'']
   \<and> start_command \<lparr>sender_id = 7, sender_display_name = ''Ann'',
        raw_text = ''/start'', is_command = True, command_name = Some ''start'',
        command_args = []\<rparr>
     = [\<lparr>target_sender_id = 7,
         body = [CHR 0xF0, CHR 0x9F, CHR 0x91, CHR 0x8B] @ '' Hello Ann!\<newline>\<newline>I'm a simple example bot running on TELEBOT HOSTER! '' @
           [CHR 0xF0, CHR 0x9F, CHR 0xA4, CHR 0x96] @
           ''\<newline>\<newline>Try these commands:\<newline>/help - Show available commands\<newline>/about - Learn about this bot\<newline>/echo <message> - Echo your message back\<newline>\<newline>Or just send me any message and I'll respond!'',
         format_hint = plain\<rparr>]
   \<and> list_all (\<lambda>name. str_contains (body (hd (start_command \<lparr>sender_id = 7,
        sender_display_name = ''Ann'', raw_text = ''/start'', is_command = True,
        command_name = Some ''start'', command_args = []\<rparr>))) name)
        [''help'', ''about'', ''echo'']
   \<and> \<not> str_contains (body (hd (start_command \<lparr>sender_id = 7,
        sender_display_name = ''Ann'', raw_text = ''/start'', is_command = True,
        command_name = Some ''start'', command_args = []\<rparr>))) ''start''"
proof -
  let ?h = "\<lparr>sender_id = 7, sender_display_name = ''Ann'',
        raw_text = ''/help'', is_command = True, command_name = Some ''help'',
        command_args = []\<rparr>"
  let ?s = "\<lparr>sender_id = 7, sender_display_name = ''Ann'',
        raw_text = ''/start'', is_command = True, command_name = Some ''start'',
        command_args = []\<rparr>"
  have hb: "help_command ?h = [\<lparr>target_sender_id = 7,
         body = [CHR 0xF0, CHR 0x9F, CHR 0x93, CHR 0x96] @
           '' *Available Commands:*\<newline>\<newline>/start - Start the bot\<newline>/help - Show this help message\<newline>/about - Learn about this bot\<newline>/echo <text> - Echo your message\<newline>\<newline>You can also just send me any text message!'',
         format_hint = rich_text\<rparr>]"
    by (simp add: help_command_def reply_text_def help_text_def open_book_def)
  have sb: "start_command ?s = [\<lparr>target_sender_id = 7,
         body = [CHR 0xF0, CHR 0x9F, CHR 0x91, CHR 0x8B] @ '' Hello Ann!\<newline>\<newline>I'm a simple example bot running on TELEBOT HOSTER! '' @
           [CHR 0xF0, CHR 0x9F, CHR 0xA4, CHR 0x96] @
           ''\<newline>\<newline>Try these commands:\<newline>/help - Show available commands\<newline>/about - Learn about this bot\<newline>/echo <message> - Echo your message back\<newline>\<newline>Or just send me any message and I'll respond!'',
         format_hint = plain\<rparr>]"
    by (simp add: start_command_def reply_text_def start_text_def waving_hand_def
        robot_face_def)
  from start_help_mention_commands [of ?h]
  obtain r where r: "help_command ?h = [r]"
    and m: "\<forall>name \<in> set [''start'', ''help'', ''about'', ''echo''].
              str_contains (body r) name \<and> str_contains (body r) (CHR ''/'' # name)"
    by metis
  have hm: "list_all (\<lambda>name. str_contains (body (hd (help_command ?h))) name)
        [''start'', ''help'', ''about'', ''echo'']"
    unfolding r using m by simp
  from start_help_mention_commands [of ?s]
  obtain q where q: "start_command ?s = [q]"
    and n: "\<forall>name \<in> set [''start'', ''help'', ''about'', ''echo''].
              name \<noteq> ''start'' \<longrightarrow>
                str_contains (body q) name \<and> str_contains (body q) (CHR ''/'' # name)"
    and t: "str_contains (body q) ''start'' = str_contains (sender_display_name ?s) ''start''"
    by metis
  have sm: "list_all (\<lambda>name. str_contains (body (hd (start_command ?s))) name)
        [''help'', ''about'', ''echo'']
      \<and> \<not> str_contains (body (hd (start_command ?s))) ''start''"
    unfolding q using n t by simp
  from hb sb hm sm show ?thesis
    by blast
qed

end
